theory Spec2Isabelle
  imports Complex_Main
begin

section \<open>Data model\<close>

text \<open>
  The objects exchanged between the detection engine, the wrapper
  \<^verbatim>\<open>services/pythonOMRProcessor.js\<close>, the OMR routes and the browser client.

  The engine tags every Mark with one of two types, and the extractor reads only the
  properties \<^verbatim>\<open>quantity\<close> and \<^verbatim>\<open>selection\<close> of a group. Only the fields the JavaScript
  reads are kept in a Mark; confidences are JavaScript numbers that are only compared
  (\<^verbatim>\<open>Math.min\<close>), so they are modelled as rationals. Field names shared by several objects
  are told apart by the record's name (\<open>wrapper_result.success\<close>, \<open>order_result.success\<close>, ...).
\<close>

datatype mark_type = Quantity | Selection

record mark =
  mtype :: mark_type
  item :: string
  isMarked :: bool
  confidence :: rat

text \<open>
  What \<^verbatim>\<open>JSON.parse\<close> can give where the code expects a report. An element of the marks
  array is \<^verbatim>\<open>null\<close>, a Mark object, or a value with neither an \<^verbatim>\<open>item\<close> nor a
  \<^verbatim>\<open>type\<close> (a number, a string, a boolean, an array, an empty object). The \<^verbatim>\<open>marks\<close>
  property is absent, \<^verbatim>\<open>null\<close>, an array, or another value. The parsed output itself
  is \<^verbatim>\<open>null\<close> (\<open>None\<close> below), an object, or another value. The \<open>success\<close> of a report
  is the truthiness of its \<^verbatim>\<open>success\<close> property, false when the property is absent;
  the remaining fields are only copied by the route and are absent or present.
\<close>

datatype mark_value = MarkNull | MarkOther | Mark mark

datatype marks_value = MarksUndefined | MarksNull | MarksOther | MarksArray "mark_value list"

record processing_result =
  success :: bool
  marks :: marks_value
  confidence :: "rat option"
  image_dimensions :: "(nat \<times> nat) option"
  total_marks_detected :: "nat option"
  marked_items :: "string list option"
  error :: "string option"

datatype engine_value = NotAnObject | Report processing_result

record wrapper_result =
  success :: bool
  error :: "string option"
  data :: "engine_value option"

text \<open>A group of \<^verbatim>\<open>itemGroups\<close>, as far as the extractor reads it:
  \<^verbatim>\<open>{quantity: mark, selection: mark}\<close>, each property present or not.\<close>

record item_marks =
  quantity :: "mark option"
  selection :: "mark option"

record order_line =
  item_name :: string
  quantity :: nat
  confidence :: rat

record order_result =
  success :: bool
  error :: "string option"
  orderItems :: "order_line list"
  omrData :: "engine_value option"

section \<open>The runtime: errors, child processes, files\<close>

text \<open>
  A thrown value is a JavaScript error object; the code only ever reads its
  \<^verbatim>\<open>message\<close> (\<open>error_message\<close>). A system error of Node.js carries the message
  \<^verbatim>\<open>CODE: description, syscall 'path'\<close>.
\<close>

datatype js_error =
    SystemError string string string string
  | Error string
  | SyntaxError string
  | TypeError string

fun error_message :: "js_error \<Rightarrow> string" where
  "error_message (SystemError code description syscall path) =
     code @ '': '' @ description @ '', '' @ syscall @ '' '' @ [CHR 0x27] @ path @ [CHR 0x27]"
| "error_message (Error msg) = msg"
| "error_message (SyntaxError msg) = msg"
| "error_message (TypeError msg) = msg"

definition digit_char :: "nat \<Rightarrow> char" where
  "digit_char d = ''0123456789'' ! d"

fun decimal_digits :: "nat \<Rightarrow> string" where
  "decimal_digits n =
     (if 10 \<le> n then decimal_digits (n div 10) @ [digit_char (n mod 10)]
      else [digit_char n])"

declare decimal_digits.simps [simp del]

text \<open>A number inside a template literal.\<close>

definition number_to_string :: "int \<Rightarrow> string" where
  "number_to_string i =
     (if 0 \<le> i then decimal_digits (nat i) else CHR ''-'' # decimal_digits (nat (- i)))"

text \<open>The exit code of a child process as a template literal prints it: a number, or null
  when the process was ended by a signal.\<close>

definition string_of_code :: "int option \<Rightarrow> string" where
  "string_of_code code = (case code of None \<Rightarrow> ''null'' | Some c \<Rightarrow> number_to_string c)"

text \<open>What a spawned process does: it closes with an exit code after writing to stdout and
  stderr, or it cannot be started and the \<^verbatim>\<open>error\<close> event fires.\<close>

datatype child_outcome =
    Close "int option" string string
  | SpawnError js_error

record PythonOMRProcessor =
  pythonScriptPath :: string
  pythonExecutable :: string

text \<open>
  The platform the wrapper runs on. \<open>spawn\<close> gives the outcome of a child process, which is
  taken to leave the files alone. \<open>JSON_parse\<close> is \<^verbatim>\<open>JSON.parse\<close> on the engine's output:
  it throws, or gives a JSON value, \<open>None\<close> being \<^verbatim>\<open>null\<close>. \<open>now\<close> is \<^verbatim>\<open>Date.now()\<close>.
\<close>

record platform =
  spawn :: "string \<Rightarrow> string list \<Rightarrow> child_outcome"
  JSON_parse :: "string \<Rightarrow> js_error + engine_value option"
  now :: nat

text \<open>The file system is the set of paths that exist. \<^verbatim>\<open>fs.access\<close> only looks;
  \<^verbatim>\<open>fs.unlink\<close> removes the path. Both reject with ENOENT on a missing path.\<close>

type_synonym filesystem = "string set"

definition fs_access :: "filesystem \<Rightarrow> string \<Rightarrow> (js_error + unit) \<times> filesystem" where
  "fs_access fs path =
     (if path \<in> fs then (Inr (), fs)
      else (Inl (SystemError ''ENOENT'' ''no such file or directory'' ''access'' path), fs))"

definition fs_unlink :: "filesystem \<Rightarrow> string \<Rightarrow> (js_error + unit) \<times> filesystem" where
  "fs_unlink fs path =
     (if path \<in> fs then (Inr (), fs - {path})
      else (Inl (SystemError ''ENOENT'' ''no such file or directory'' ''unlink'' path), fs))"

section \<open>The wrapper: \<^verbatim>\<open>processImage\<close>\<close>

definition runPythonCommand ::
  "PythonOMRProcessor \<Rightarrow> platform \<Rightarrow> string list \<Rightarrow> js_error + string" where
  "runPythonCommand this env args =
     (case spawn env (pythonExecutable this) args of
        Close code stdout stderr \<Rightarrow>
          if code = Some 0 then Inr stdout
          else Inl (Error (''Python process exited with code '' @ string_of_code code
                            @ '': '' @ stderr))
      | SpawnError err \<Rightarrow> Inl err)"

text \<open>The body of the \<^verbatim>\<open>try\<close> block: each awaited call either returns or throws
  (\<open>Inl\<close>), and a throw leaves the block at once.\<close>

definition processImage_try ::
  "PythonOMRProcessor \<Rightarrow> platform \<Rightarrow> filesystem \<Rightarrow> string
     \<Rightarrow> (js_error + wrapper_result) \<times> filesystem" where
  "processImage_try this env fs imagePath =
     (case fs_access fs imagePath of
        (Inl err, fs1) \<Rightarrow> (Inl err, fs1)
      | (Inr _, fs1) \<Rightarrow>
          (case runPythonCommand this env [pythonScriptPath this, imagePath] of
             Inl err \<Rightarrow> (Inl err, fs1)
           | Inr result \<Rightarrow>
               (case JSON_parse env result of
                  Inl err \<Rightarrow> (Inl err, fs1)
                | Inr parsedResult \<Rightarrow>
                    (Inr \<lparr>wrapper_result.success = True, error = None,
                          data = parsedResult\<rparr>, fs1))))"

definition processImage ::
  "PythonOMRProcessor \<Rightarrow> platform \<Rightarrow> filesystem \<Rightarrow> string
     \<Rightarrow> (js_error + wrapper_result) \<times> filesystem" where
  "processImage this env fs imagePath =
     (case processImage_try this env fs imagePath of
        (Inr r, fs1) \<Rightarrow> (Inr r, fs1)
      | (Inl err, fs1) \<Rightarrow>
          (Inr \<lparr>wrapper_result.success = False, error = Some (error_message err), data = None\<rparr>,
           fs1))"

section \<open>The order extractor: \<^verbatim>\<open>extractOrderFromOMR\<close>\<close>

subsection \<open>Plain objects as dictionaries\<close>

text \<open>
  \<^verbatim>\<open>itemGroups\<close> and every group in it are plain objects created by \<^verbatim>\<open>{}\<close>: a property
  that is not their own is looked up on \<^verbatim>\<open>Object.prototype\<close>. That object has an accessor
  \<^verbatim>\<open>__proto__\<close>, which reads as \<^verbatim>\<open>Object.prototype\<close> itself, and eleven methods; all
  are truthy.
\<close>

definition builtin_method_names :: "string list" where
  "builtin_method_names =
     [''constructor'', ''__defineGetter__'', ''__defineSetter__'', ''hasOwnProperty'',
      ''__lookupGetter__'', ''__lookupSetter__'', ''isPrototypeOf'', ''propertyIsEnumerable'',
      ''toString'', ''valueOf'', ''toLocaleString'']"

definition inherited_names :: "string list" where
  "inherited_names = ''__proto__'' # builtin_method_names"

definition property_name :: "mark_type \<Rightarrow> string" where
  "property_name t = (case t of Quantity \<Rightarrow> ''quantity'' | Selection \<Rightarrow> ''selection'')"

text \<open>
  The state of the grouping loop: the own properties of \<^verbatim>\<open>itemGroups\<close> in order of
  creation, each with the own \<^verbatim>\<open>quantity\<close> and \<^verbatim>\<open>selection\<close> of its group, and the
  \<^verbatim>\<open>quantity\<close> and \<^verbatim>\<open>selection\<close> that have been written onto \<^verbatim>\<open>Object.prototype\<close>.
  A call starts with an empty \<^verbatim>\<open>itemGroups\<close> and an \<^verbatim>\<open>Object.prototype\<close> as the
  realm creates it: nothing has written a \<^verbatim>\<open>quantity\<close> or a \<^verbatim>\<open>selection\<close> onto it
  before the call.
\<close>

definition no_marks :: item_marks where
  "no_marks = \<lparr>item_marks.quantity = None, selection = None\<rparr>"

definition read_mark :: "item_marks \<Rightarrow> mark_type \<Rightarrow> mark option" where
  "read_mark itemMarks t =
     (case t of Quantity \<Rightarrow> item_marks.quantity itemMarks | Selection \<Rightarrow> selection itemMarks)"

definition write_mark :: "item_marks \<Rightarrow> mark_type \<Rightarrow> mark \<Rightarrow> item_marks" where
  "write_mark itemMarks t m =
     (case t of
        Quantity \<Rightarrow> itemMarks\<lparr>item_marks.quantity := Some m\<rparr>
      | Selection \<Rightarrow> itemMarks\<lparr>selection := Some m\<rparr>)"

record grouping =
  itemGroups :: "(string \<times> item_marks) list"
  Object_prototype :: item_marks

definition empty_grouping :: grouping where
  "empty_grouping = \<lparr>itemGroups = [], Object_prototype = no_marks\<rparr>"

text \<open>What \<^verbatim>\<open>itemGroups[key]\<close> reads: an own group, or what \<^verbatim>\<open>Object.prototype\<close>
  holds under that name, or \<^verbatim>\<open>undefined\<close>.\<close>

datatype looked_up =
    OwnGroup item_marks
  | TheObjectPrototype
  | BuiltinMethod
  | InheritedMark mark
  | Undefined

definition inherited_mark :: "grouping \<Rightarrow> string \<Rightarrow> mark option" where
  "inherited_mark st key =
     (if key = ''quantity'' then item_marks.quantity (Object_prototype st)
      else if key = ''selection'' then selection (Object_prototype st)
      else None)"

definition get_group :: "grouping \<Rightarrow> string \<Rightarrow> looked_up" where
  "get_group st key =
     (case map_of (itemGroups st) key of
        Some itemMarks \<Rightarrow> OwnGroup itemMarks
      | None \<Rightarrow>
          if key = ''__proto__'' then TheObjectPrototype
          else if key \<in> set builtin_method_names then BuiltinMethod
          else (case inherited_mark st key of
                  Some m \<Rightarrow> InheritedMark m
                | None \<Rightarrow> Undefined))"

text \<open>
  \<^verbatim>\<open>if (!itemGroups[key]) itemGroups[key] = {}\<close>: a group is created only when nothing,
  own or inherited, is found under the key.
\<close>

definition ensure_group :: "grouping \<Rightarrow> string \<Rightarrow> grouping" where
  "ensure_group st key =
     (case get_group st key of
        Undefined \<Rightarrow> st\<lparr>itemGroups := itemGroups st @ [(key, no_marks)]\<rparr>
      | _ \<Rightarrow> st)"

text \<open>
  \<^verbatim>\<open>itemGroups[key][type] = mark\<close> writes on what \<^verbatim>\<open>itemGroups[key]\<close> reads: on the own
  group; on \<^verbatim>\<open>Object.prototype\<close> for the key \<^verbatim>\<open>__proto__\<close>; on a method of
  \<^verbatim>\<open>Object.prototype\<close> or on a Mark held by \<^verbatim>\<open>Object.prototype\<close>, where nothing reads
  it again.
\<close>

definition set_group_mark :: "grouping \<Rightarrow> string \<Rightarrow> mark_type \<Rightarrow> mark \<Rightarrow> grouping" where
  "set_group_mark st key t m =
     (case get_group st key of
        OwnGroup _ \<Rightarrow>
          st\<lparr>itemGroups :=
               map (\<lambda>(k, itemMarks).
                      if k = key then (k, write_mark itemMarks t m) else (k, itemMarks))
                   (itemGroups st)\<rparr>
      | TheObjectPrototype \<Rightarrow> st\<lparr>Object_prototype := write_mark (Object_prototype st) t m\<rparr>
      | BuiltinMethod \<Rightarrow> st
      | InheritedMark _ \<Rightarrow> st
      | Undefined \<Rightarrow> st)"

definition cannot_read_properties :: "string \<Rightarrow> string \<Rightarrow> string" where
  "cannot_read_properties of_what property =
     ''Cannot read properties of '' @ of_what @ '' (reading '' @ [CHR 0x27] @ property
       @ [CHR 0x27] @ '')''"

text \<open>
  The \<^verbatim>\<open>forEach\<close> callback on one element of the marks array: \<^verbatim>\<open>mark.item\<close> throws
  on \<^verbatim>\<open>null\<close>; a value without \<^verbatim>\<open>item\<close> and \<^verbatim>\<open>type\<close> goes under the key
  \<^verbatim>\<open>undefined\<close>, as a property \<^verbatim>\<open>undefined\<close> that the extractor does not read.
\<close>

definition group_mark :: "grouping \<Rightarrow> mark_value \<Rightarrow> js_error + grouping" where
  "group_mark st v =
     (case v of
        MarkNull \<Rightarrow> Inl (TypeError (cannot_read_properties ''null'' ''item''))
      | MarkOther \<Rightarrow> Inr (ensure_group st ''undefined'')
      | Mark m \<Rightarrow> Inr (set_group_mark (ensure_group st (item m)) (item m) (mtype m) m))"

fun group_marks :: "grouping \<Rightarrow> mark_value list \<Rightarrow> js_error + grouping" where
  "group_marks st [] = Inr st"
| "group_marks st (v # vs) =
     (case group_mark st v of
        Inl err \<Rightarrow> Inl err
      | Inr st1 \<Rightarrow> group_marks st1 vs)"

subsection \<open>The order of \<^verbatim>\<open>Object.entries\<close>\<close>

text \<open>
  \<^verbatim>\<open>Object.entries\<close> lists the own properties whose name is an array index (the decimal
  numeral, without leading zero, of a number up to \<open>2\<^sup>3\<^sup>2 - 2\<close>) first, in ascending numeric
  order, and the others after them in order of creation.
\<close>

definition digit_value :: "char \<Rightarrow> nat" where
  "digit_value c = length (takeWhile (\<lambda>d. d \<noteq> c) ''0123456789'')"

definition array_index :: "string \<Rightarrow> nat option" where
  "array_index key =
     (if key \<noteq> [] \<and> list_all (\<lambda>c. c \<in> set ''0123456789'') key
         \<and> (key = ''0'' \<or> hd key \<noteq> CHR ''0'')
      then (let n = foldl (\<lambda>a c. 10 * a + digit_value c) 0 key
            in if int n \<le> 4294967294 then Some n else None)
      else None)"

definition index_key :: "string \<times> 'a \<Rightarrow> nat" where
  "index_key entry = (case array_index (fst entry) of Some n \<Rightarrow> n | None \<Rightarrow> 0)"

definition Object_entries :: "(string \<times> 'a) list \<Rightarrow> (string \<times> 'a) list" where
  "Object_entries props =
     sort_key index_key (filter (\<lambda>entry. array_index (fst entry) \<noteq> None) props)
     @ filter (\<lambda>entry. array_index (fst entry) = None) props"

subsection \<open>The order lines\<close>

text \<open>\<^verbatim>\<open>itemMarks.quantity\<close> and \<^verbatim>\<open>itemMarks.selection\<close>: the group's own property, or
  else the one \<^verbatim>\<open>Object.prototype\<close> holds.\<close>

definition get_mark :: "grouping \<Rightarrow> item_marks \<Rightarrow> mark_type \<Rightarrow> mark option" where
  "get_mark st itemMarks t =
     (case read_mark itemMarks t of
        Some m \<Rightarrow> Some m
      | None \<Rightarrow> read_mark (Object_prototype st) t)"

definition order_line_of :: "grouping \<Rightarrow> string \<times> item_marks \<Rightarrow> order_line list" where
  "order_line_of st entry =
     (case entry of (itemName, itemMarks) \<Rightarrow>
        (let quantityMark = get_mark st itemMarks Quantity;
             selectionMark = get_mark st itemMarks Selection
         in case selectionMark of
              None \<Rightarrow> []
            | Some s \<Rightarrow>
                if isMarked s
                then [\<lparr>item_name = itemName,
                       quantity =
                         (if (case quantityMark of None \<Rightarrow> False | Some q \<Rightarrow> isMarked q)
                          then 1 else 1),
                       confidence =
                         min (mark.confidence s)
                             (case quantityMark of None \<Rightarrow> 1 | Some q \<Rightarrow> mark.confidence q)\<rparr>]
                else []))"

definition order_lines :: "grouping \<Rightarrow> order_line list" where
  "order_lines st = concat (map (order_line_of st) (Object_entries (itemGroups st)))"

text \<open>Lines 138 to 168: \<^verbatim>\<open>marks.forEach\<close> throws unless \<^verbatim>\<open>marks\<close> is an array.\<close>

definition build_orderItems :: "marks_value \<Rightarrow> js_error + order_line list" where
  "build_orderItems the_marks =
     (case the_marks of
        MarksUndefined \<Rightarrow> Inl (TypeError (cannot_read_properties ''undefined'' ''forEach''))
      | MarksNull \<Rightarrow> Inl (TypeError (cannot_read_properties ''null'' ''forEach''))
      | MarksOther \<Rightarrow> Inl (TypeError ''marks.forEach is not a function'')
      | MarksArray vs \<Rightarrow>
          (case group_marks empty_grouping vs of
             Inl err \<Rightarrow> Inl err
           | Inr st \<Rightarrow> Inr (order_lines st)))"

subsection \<open>The function\<close>

text \<open>\<^verbatim>\<open>a || b\<close> on an optional string: an absent or empty string is falsy.\<close>

definition js_or :: "string option \<Rightarrow> string \<Rightarrow> string" where
  "js_or a b = (case a of None \<Rightarrow> b | Some s \<Rightarrow> if s = [] then b else s)"

text \<open>The \<^verbatim>\<open>try\<close> block after the awaited call of \<open>processImage\<close>, and the object the
  \<^verbatim>\<open>catch\<close> block returns. \<^verbatim>\<open>result.data.success\<close> throws on \<^verbatim>\<open>null\<close> and is
  \<^verbatim>\<open>undefined\<close> on a value that is not an object.\<close>

definition extractOrderFromOMR_body :: "wrapper_result \<Rightarrow> js_error + order_result" where
  "extractOrderFromOMR_body result =
     (if \<not> wrapper_result.success result
      then Inl (Error (js_or (wrapper_result.error result) ''OMR processing failed''))
      else case wrapper_result.data result of
             None \<Rightarrow> Inl (TypeError (cannot_read_properties ''null'' ''success''))
           | Some NotAnObject \<Rightarrow>
               Inl (Error (js_or (wrapper_result.error result) ''OMR processing failed''))
           | Some (Report d) \<Rightarrow>
               if \<not> processing_result.success d
               then Inl (Error (js_or (wrapper_result.error result) ''OMR processing failed''))
               else (case build_orderItems (processing_result.marks d) of
                       Inl err \<Rightarrow> Inl err
                     | Inr lines \<Rightarrow>
                         Inr \<lparr>order_result.success = True, error = None,
                              orderItems = lines, omrData = Some (Report d)\<rparr>))"

definition extractOrderFromOMR_catch :: "js_error \<Rightarrow> order_result" where
  "extractOrderFromOMR_catch err =
     \<lparr>order_result.success = False, error = Some (error_message err),
      orderItems = [], omrData = None\<rparr>"

definition extractOrderFromOMR ::
  "PythonOMRProcessor \<Rightarrow> platform \<Rightarrow> filesystem \<Rightarrow> string
     \<Rightarrow> (js_error + order_result) \<times> filesystem" where
  "extractOrderFromOMR this env fs imagePath =
     (case processImage this env fs imagePath of
        (Inl err, fs1) \<Rightarrow> (Inr (extractOrderFromOMR_catch err), fs1)
      | (Inr result, fs1) \<Rightarrow>
          (case extractOrderFromOMR_body result of
             Inl err \<Rightarrow> (Inr (extractOrderFromOMR_catch err), fs1)
           | Inr r \<Rightarrow> (Inr r, fs1)))"

section \<open>The route \<^verbatim>\<open>POST /api/omr/process\<close>\<close>

record request =
  req_file :: "string option"
  form_type :: "string option"

text \<open>The \<^verbatim>\<open>data\<close> of the route's answer: the fields copied from the parsed output are
  absent when the parsed output does not have them.\<close>

record response_data =
  data_id :: nat
  form_type :: "string option"
  marks :: marks_value
  confidence :: "rat option"
  image_path :: string
  processor :: string
  image_dimensions :: "(nat \<times> nat) option"
  total_marks_detected :: "nat option"
  marked_items :: "string list option"

record response =
  status :: nat
  success :: bool
  error :: "string option"
  message :: "string option"
  data :: "response_data option"

definition template_string :: "string option \<Rightarrow> string" where
  "template_string s = (case s of None \<Rightarrow> ''undefined'' | Some t \<Rightarrow> t)"

definition omr_process_try ::
  "PythonOMRProcessor \<Rightarrow> platform \<Rightarrow> bool \<Rightarrow> filesystem \<Rightarrow> string
     \<Rightarrow> (js_error + engine_value option) \<times> filesystem" where
  "omr_process_try this env pythonProcessorReady fs imagePath =
     (if pythonProcessorReady
      then (case processImage this env fs imagePath of
              (Inl err, fs1) \<Rightarrow> (Inl err, fs1)
            | (Inr pythonResult, fs1) \<Rightarrow>
                if wrapper_result.success pythonResult
                then (Inr (wrapper_result.data pythonResult), fs1)
                else (Inl (Error (''Python processing failed: ''
                                   @ template_string (wrapper_result.error pythonResult))), fs1))
      else (Inl (Error ''Python OMR processor not available''), fs))"

text \<open>The object handed to \<^verbatim>\<open>res.json\<close>: reading \<^verbatim>\<open>result.marks\<close> throws on
  \<^verbatim>\<open>null\<close>.\<close>

definition omr_process_data ::
  "platform \<Rightarrow> request \<Rightarrow> string \<Rightarrow> engine_value option \<Rightarrow> js_error + response_data" where
  "omr_process_data env req imagePath result =
     (case result of
        None \<Rightarrow> Inl (TypeError (cannot_read_properties ''null'' ''marks''))
      | Some NotAnObject \<Rightarrow>
          Inr \<lparr>data_id = now env, form_type = request.form_type req,
               marks = MarksUndefined, confidence = None, image_path = imagePath,
               processor = ''python-opencv'', image_dimensions = None,
               total_marks_detected = None, marked_items = None\<rparr>
      | Some (Report d) \<Rightarrow>
          Inr \<lparr>data_id = now env, form_type = request.form_type req,
               marks = processing_result.marks d,
               confidence = processing_result.confidence d, image_path = imagePath,
               processor = ''python-opencv'',
               image_dimensions = processing_result.image_dimensions d,
               total_marks_detected = processing_result.total_marks_detected d,
               marked_items = processing_result.marked_items d\<rparr>)"

definition omr_process_route ::
  "PythonOMRProcessor \<Rightarrow> platform \<Rightarrow> bool \<Rightarrow> request \<Rightarrow> filesystem
     \<Rightarrow> response \<times> filesystem" where
  "omr_process_route this env pythonProcessorReady req fs =
     (case req_file req of
        None \<Rightarrow>
          (\<lparr>status = 400, success = False, error = Some ''No image file provided'',
            message = None, data = None\<rparr>, fs)
      | Some imagePath \<Rightarrow>
          (case (case omr_process_try this env pythonProcessorReady fs imagePath of
                   (Inl err, fs1) \<Rightarrow> (Inl err, fs1)
                 | (Inr result, fs1) \<Rightarrow> (omr_process_data env req imagePath result, fs1)) of
             (Inr d, fs1) \<Rightarrow>
               (\<lparr>status = 200, success = True, error = None,
                 message = Some ''OMR processing completed successfully using Python OpenCV'',
                 data = Some d\<rparr>, fs1)
           | (Inl err, fs1) \<Rightarrow>
               (case fs_unlink fs1 imagePath of
                  (_, fs2) \<Rightarrow>
                    (\<lparr>status = 500, success = False, error = Some ''OMR processing failed'',
                      message = Some (error_message err), data = None\<rparr>, fs2))))"

text \<open>What the browser client receives as \<^verbatim>\<open>data\<close> from a successful answer of the
  route.\<close>

record process_data =
  data_id :: nat
  form_type :: "string option"
  marks :: "mark list"
  confidence :: rat
  image_path :: string
  processor :: string
  image_dimensions :: "nat \<times> nat"
  total_marks_detected :: nat
  marked_items :: "string list"

section \<open>The browser client: \<^verbatim>\<open>showResults\<close>\<close>

text \<open>The percentage \<^verbatim>\<open>showResults\<close> prints and uses as the width of the confidence
  bar: \<^verbatim>\<open>Math.round(data.confidence * 100)\<close>. \<^verbatim>\<open>Math.round\<close> rounds a half
  upwards, as \<open>round\<close> does.\<close>

definition showResults_confidencePercent :: "process_data \<Rightarrow> int" where
  "showResults_confidencePercent d = round (process_data.confidence d * 100)"

definition showResults_confidence_text :: "process_data \<Rightarrow> string" where
  "showResults_confidence_text d =
     ''Confidence: '' @ number_to_string (showResults_confidencePercent d) @ ''%''"


section \<open>Notions used to state the properties\<close>

text \<open>The Mark objects of a marks array, and the marks array of a parsed output (empty
  when there is none).\<close>

fun mark_objects :: "mark_value list \<Rightarrow> mark list" where
  "mark_objects [] = []"
| "mark_objects (Mark m # vs) = m # mark_objects vs"
| "mark_objects (v # vs) = mark_objects vs"


text \<open>The last Mark of the list, in list order, with a given item and type.\<close>

definition last_mark :: "mark list \<Rightarrow> string \<Rightarrow> mark_type \<Rightarrow> mark option" where
  "last_mark ms x t = find (\<lambda>m. item m = x \<and> mtype m = t) (rev ms)"

text \<open>No Mark of the list has an item that names a property every object inherits from
  \<^verbatim>\<open>Object.prototype\<close>.\<close>

definition ordinary_items :: "mark list \<Rightarrow> bool" where
  "ordinary_items ms = list_all (\<lambda>m. item m \<notin> set inherited_names) ms"




text \<open>The upstream processing was unsuccessful: the wrapper result has \<open>success = false\<close>,
  or the \<^verbatim>\<open>success\<close> read from the parsed output is falsy.\<close>

definition upstream_unsuccessful :: "wrapper_result \<Rightarrow> bool" where
  "upstream_unsuccessful result \<longleftrightarrow>
     \<not> wrapper_result.success result \<or>
     (case wrapper_result.data result of
        None \<Rightarrow> False
      | Some NotAnObject \<Rightarrow> True
      | Some (Report d) \<Rightarrow> \<not> processing_result.success d)"


text \<open>The elements of a list in order of first occurrence: the order in which
  \<^verbatim>\<open>itemGroups\<close> receives its keys.\<close>

definition first_occurrences :: "'a list \<Rightarrow> 'a list" where
  "first_occurrences xs = rev (remdups (rev xs))"

text \<open>The key under which an element of the marks array is grouped, and the group that
  holds the last Marks of an item.\<close>

fun key_of :: "mark_value \<Rightarrow> string" where
  "key_of (Mark m) = item m"
| "key_of v = ''undefined''"

definition group_of :: "mark list \<Rightarrow> string \<Rightarrow> item_marks" where
  "group_of ms x =
     \<lparr>item_marks.quantity = last_mark ms x Quantity, selection = last_mark ms x Selection\<rparr>"

section \<open>Concrete scenarios\<close>

definition the_processor :: PythonOMRProcessor where
  "the_processor = \<lparr>pythonScriptPath = ''python/omr_processor.py'', pythonExecutable = ''python''\<rparr>"

text \<open>A platform on which the engine exits with code 0 and its output parses to \<open>d\<close>.\<close>

definition engine_reports :: "engine_value option \<Rightarrow> platform" where
  "engine_reports d =
     \<lparr>spawn = (\<lambda>command args. Close (Some 0) ''{}'' []),
      JSON_parse = (\<lambda>text. Inr d),
      now = 0\<rparr>"

text \<open>A platform on which the engine exits with code 1.\<close>

definition engine_crashes :: platform where
  "engine_crashes =
     \<lparr>spawn = (\<lambda>command args. Close (Some 1) [] ''Traceback''),
      JSON_parse = (\<lambda>text. Inl (SyntaxError ''Unexpected end of JSON input'')),
      now = 0\<rparr>"

text \<open>A report of success with the given Marks, and the engine's report of a failure.\<close>

definition report_of :: "mark list \<Rightarrow> engine_value" where
  "report_of ms =
     Report \<lparr>processing_result.success = True, marks = MarksArray (map Mark ms),
             confidence = Some 85, image_dimensions = Some (800, 600),
             total_marks_detected = Some 0, marked_items = Some [], error = None\<rparr>"

definition failure_report :: engine_value where
  "failure_report =
     Report \<lparr>processing_result.success = False, marks = MarksUndefined, confidence = None,
             image_dimensions = None, total_marks_detected = None, marked_items = None,
             error = Some ''Could not load image''\<rparr>"

text \<open>A report of success without the \<^verbatim>\<open>marks\<close> property.\<close>

definition report_without_marks :: engine_value where
  "report_without_marks =
     Report \<lparr>processing_result.success = True, marks = MarksUndefined, confidence = None,
             image_dimensions = None, total_marks_detected = None, marked_items = None,
             error = None\<rparr>"

definition sel :: "string \<Rightarrow> bool \<Rightarrow> rat \<Rightarrow> mark" where
  "sel x b c = \<lparr>mtype = Selection, item = x, isMarked = b, confidence = c\<rparr>"

definition qty :: "string \<Rightarrow> bool \<Rightarrow> rat \<Rightarrow> mark" where
  "qty x b c = \<lparr>mtype = Quantity, item = x, isMarked = b, confidence = c\<rparr>"

text \<open>The response body of the API documentation's example for
  \<^verbatim>\<open>POST /api/omr/process\<close>.\<close>

definition documented_data :: process_data where
  "documented_data =
     \<lparr>data_id = 1, form_type = Some ''menu_order'',
      marks = [qty ''isda'' True (17 / 20)], confidence = 85,
      image_path = ''/uploads/omr-1234567890.jpg'', processor = ''python-opencv'',
      image_dimensions = (800, 600), total_marks_detected = 16,
      marked_items = [''isda'', ''Chicken'']\<rparr>"

section \<open>Notions used in the proofs\<close>

text \<open>What the grouping loop leaves behind when no item of the marks names a property
  inherited from \<^verbatim>\<open>Object.prototype\<close>: one group for each key, in order of first
  occurrence, holding the last Marks of the key.\<close>

definition closed_grouping :: "mark_value list \<Rightarrow> grouping" where
  "closed_grouping vs =
     \<lparr>itemGroups = map (\<lambda>k. (k, group_of (mark_objects vs) k))
                       (first_occurrences (map key_of vs)),
      Object_prototype = no_marks\<rparr>"





section \<open>Groups and lists\<close>

lemma read_write_mark:
  "read_mark (write_mark g t m) t' = (if t' = t then Some m else read_mark g t')"
  by (cases t; cases t') (simp_all add: read_mark_def write_mark_def)

lemma read_no_marks: "read_mark no_marks t = None"
  by (cases t) (simp_all add: read_mark_def no_marks_def)

lemma item_marks_eqI: "(\<And>t. read_mark g t = read_mark g' t) \<Longrightarrow> g = g'"
proof -
  assume a: "\<And>t. read_mark g t = read_mark g' t"
  from a[of Quantity] a[of Selection] show ?thesis
    by (cases g, cases g') (simp add: read_mark_def)
qed

lemma read_group_of: "read_mark (group_of ms x) t = last_mark ms x t"
  by (cases t) (simp_all add: read_mark_def group_of_def)

lemma first_occurrences_snoc:
  "first_occurrences (xs @ [x]) =
     (if x \<in> set xs then first_occurrences xs else first_occurrences xs @ [x])"
  by (simp add: first_occurrences_def)

lemma set_first_occurrences: "set (first_occurrences xs) = set xs"
  by (simp add: first_occurrences_def)



lemma last_mark_snoc:
  "last_mark (ms @ [m]) x t =
     (if item m = x \<and> mtype m = t then Some m else last_mark ms x t)"
  by (simp add: last_mark_def)



lemma last_mark_None_iff:
  "last_mark ms x t = None \<longleftrightarrow> (\<forall>m \<in> set ms. \<not> (item m = x \<and> mtype m = t))"
  unfolding last_mark_def by (auto simp: find_None_iff)

lemma mark_objects_append: "mark_objects (vs @ ws) = mark_objects vs @ mark_objects ws"
  by (induction vs rule: mark_objects.induct) simp_all

lemma mark_objects_map_Mark: "mark_objects (map Mark ms) = ms"
  by (induction ms) simp_all

lemma set_mark_objects: "m \<in> set (mark_objects vs) \<longleftrightarrow> Mark m \<in> set vs"
  by (induction vs rule: mark_objects.induct) auto

lemma item_in_keys: "m \<in> set (mark_objects vs) \<Longrightarrow> item m \<in> key_of ` set vs"
  by (force simp: set_mark_objects)

section \<open>The grouping loop\<close>

lemma group_marks_append:
  "group_marks st (vs @ ws) =
     (case group_marks st vs of Inl err \<Rightarrow> Inl err | Inr st1 \<Rightarrow> group_marks st1 ws)"
  by (induction vs arbitrary: st) (simp_all split: sum.splits)


lemma group_marks_error:
  "group_marks st vs = Inl err \<Longrightarrow> err = TypeError (cannot_read_properties ''null'' ''item'')"
proof (induction vs arbitrary: st)
  case Nil
  then show ?case by simp
next
  case (Cons v vs)
  then show ?case
    by (cases v) (auto simp: group_mark_def)
qed

section \<open>Marks with ordinary item names\<close>

lemma map_of_keys:
  "map_of (map (\<lambda>k. (k, f k)) ks) x = (if x \<in> set ks then Some (f x) else None)"
  by (induction ks) auto

lemma undefined_ordinary: "''undefined'' \<notin> set inherited_names"
  by (simp add: inherited_names_def builtin_method_names_def)

lemma get_group_closed:
  assumes "x \<notin> set inherited_names"
  shows "get_group (closed_grouping vs) x =
           (if x \<in> key_of ` set vs then OwnGroup (group_of (mark_objects vs) x) else Undefined)"
  using assms
  by (simp add: get_group_def closed_grouping_def map_of_keys set_first_occurrences
        inherited_names_def inherited_mark_def no_marks_def)

lemma no_marks_group_of:
  assumes "x \<notin> key_of ` set vs"
  shows "group_of (mark_objects vs) x = no_marks"
proof (rule item_marks_eqI)
  fix t
  have "\<forall>m \<in> set (mark_objects vs). item m \<noteq> x"
    using assms item_in_keys by blast
  then show "read_mark (group_of (mark_objects vs) x) t = read_mark no_marks t"
    by (simp add: read_group_of read_no_marks last_mark_None_iff)
qed

lemma write_group_of:
  "write_mark (group_of ms (item m)) (mtype m) m = group_of (ms @ [m]) (item m)"
  by (rule item_marks_eqI) (simp add: read_write_mark read_group_of last_mark_snoc)

lemma other_group_of: "k \<noteq> item m \<Longrightarrow> group_of (ms @ [m]) k = group_of ms k"
  by (rule item_marks_eqI) (simp add: read_group_of last_mark_snoc)

lemma ensure_closed:
  assumes "x \<notin> set inherited_names"
  shows "ensure_group (closed_grouping vs) x =
           \<lparr>itemGroups = map (\<lambda>k. (k, group_of (mark_objects vs) k))
                             (if x \<in> key_of ` set vs then first_occurrences (map key_of vs)
                              else first_occurrences (map key_of vs) @ [x]),
            Object_prototype = no_marks\<rparr>"
proof -
  have g: "get_group (closed_grouping vs) x =
             (if x \<in> key_of ` set vs
              then OwnGroup (group_of (mark_objects vs) x) else Undefined)"
    by (rule get_group_closed[OF assms])
  show ?thesis
  proof (cases "x \<in> key_of ` set vs")
    case True
    then show ?thesis
      unfolding ensure_group_def g by (simp add: closed_grouping_def)
  next
    case False
    then show ?thesis
      unfolding ensure_group_def g
      using no_marks_group_of[OF False] by (simp add: closed_grouping_def)
  qed
qed

lemma ensure_closed_other:
  "ensure_group (closed_grouping vs) ''undefined'' = closed_grouping (vs @ [MarkOther])"
  unfolding ensure_closed[OF undefined_ordinary]
  by (simp add: closed_grouping_def first_occurrences_snoc mark_objects_append)

lemma update_keys:
  "map (\<lambda>(k, g). if k = x then (k, h g) else (k, g)) (map (\<lambda>k. (k, f k)) ks) =
   map (\<lambda>k. (k, if k = x then h (f k) else f k)) ks"
  by (induction ks) auto

lemma set_closed_mark:
  assumes "item m \<notin> set inherited_names"
  shows "set_group_mark (ensure_group (closed_grouping vs) (item m)) (item m) (mtype m) m =
           closed_grouping (vs @ [Mark m])"
proof -
  let ?ms = "mark_objects vs"
  let ?ks = "first_occurrences (map key_of (vs @ [Mark m]))"
  let ?st1 = "\<lparr>itemGroups = map (\<lambda>k. (k, group_of ?ms k)) ?ks, Object_prototype = no_marks\<rparr>"
  have st1: "ensure_group (closed_grouping vs) (item m) = ?st1"
    unfolding ensure_closed[OF assms] by (simp add: first_occurrences_snoc)
  have own: "get_group ?st1 (item m) = OwnGroup (group_of ?ms (item m))"
    by (simp add: get_group_def map_of_keys set_first_occurrences)
  have upd: "map (\<lambda>(k, g). if k = item m then (k, write_mark g (mtype m) m) else (k, g))
               (map (\<lambda>k. (k, group_of ?ms k)) ?ks) =
             map (\<lambda>k. (k, group_of (?ms @ [m]) k)) ?ks"
    unfolding update_keys
    by (rule map_cong) (auto simp: write_group_of other_group_of)
  show ?thesis
    unfolding st1 set_group_mark_def own
    using upd by (simp add: closed_grouping_def mark_objects_append)
qed

lemma group_marks_closed:
  assumes "MarkNull \<notin> set vs" and "ordinary_items (mark_objects vs)"
  shows "group_marks empty_grouping vs = Inr (closed_grouping vs)"
  using assms
proof (induction vs rule: rev_induct)
  case Nil
  show ?case
    by (simp add: empty_grouping_def closed_grouping_def first_occurrences_def)
next
  case (snoc v vs)
  then have IH: "group_marks empty_grouping vs = Inr (closed_grouping vs)"
    by (simp add: mark_objects_append ordinary_items_def)
  show ?case
  proof (cases v)
    case MarkNull
    with snoc.prems show ?thesis by simp
  next
    case MarkOther
    then show ?thesis
      by (simp add: group_marks_append IH group_mark_def ensure_closed_other)
  next
    case (Mark m)
    with snoc.prems have "item m \<notin> set inherited_names"
      by (simp add: mark_objects_append ordinary_items_def)
    with Mark show ?thesis
      by (simp add: group_marks_append IH group_mark_def set_closed_mark)
  qed
qed

section \<open>Properties of the order lines\<close>










lemma cannot_read_nonempty: "cannot_read_properties a b \<noteq> []"
  by (simp add: cannot_read_properties_def)

lemma build_error_nonempty: "build_orderItems m = Inl err \<Longrightarrow> error_message err \<noteq> []"
  by (auto simp: build_orderItems_def cannot_read_nonempty dest!: group_marks_error
           split: marks_value.splits sum.splits)

section \<open>The flags of quantity Marks are not read\<close>


















section \<open>The wrapper and the extractor always return\<close>

lemma processImage_try_frame: "snd (processImage_try this env fs p) = fs"
  by (simp add: processImage_try_def fs_access_def split: sum.splits)

lemma processImage_returns: "\<exists>r. processImage this env fs p = (Inr r, fs)"
proof (cases "processImage_try this env fs p")
  case (Pair a fs1)
  with processImage_try_frame[of this env fs p] have "fs1 = fs" by simp
  with Pair show ?thesis by (cases a) (simp_all add: processImage_def)
qed


lemma missing_file:
  "p \<notin> fs \<Longrightarrow>
   processImage this env fs p =
     (Inr \<lparr>wrapper_result.success = False,
           error = Some (''ENOENT: no such file or directory, access '' @ [CHR 0x27] @ p @ [CHR 0x27]),
           data = None\<rparr>, fs)"
  by (simp add: processImage_def processImage_try_def fs_access_def)

lemma extract_returns: "\<exists>r. extractOrderFromOMR this env fs p = (Inr r, fs)"
proof -
  obtain result where "processImage this env fs p = (Inr result, fs)"
    using processImage_returns by blast
  then show ?thesis
    by (cases "extractOrderFromOMR_body result") (simp_all add: extractOrderFromOMR_def)
qed

lemma extract_via_body:
  assumes "processImage this env fs p = (Inr result, fs)"
  shows "extractOrderFromOMR this env fs p =
           (Inr (case extractOrderFromOMR_body result of
                   Inl err \<Rightarrow> extractOrderFromOMR_catch err | Inr r \<Rightarrow> r), fs)"
  using assms by (simp add: extractOrderFromOMR_def split: sum.splits)

lemma body_success:
  "extractOrderFromOMR_body result = Inr r \<Longrightarrow>
     \<exists>d ls. wrapper_result.success result \<and> wrapper_result.data result = Some (Report d) \<and>
         processing_result.success d \<and>
         build_orderItems (processing_result.marks d) = Inr ls \<and>
         r = \<lparr>order_result.success = True, error = None,
              orderItems = ls, omrData = Some (Report d)\<rparr>"
  by (auto simp: extractOrderFromOMR_body_def
           split: if_splits option.splits engine_value.splits sum.splits)

lemma js_or_nonempty: "b \<noteq> [] \<Longrightarrow> js_or a b \<noteq> []"
  by (simp add: js_or_def split: option.splits)

lemma body_failure:
  "extractOrderFromOMR_body result = Inl err \<Longrightarrow>
     error_message err \<noteq> [] \<and>
     (upstream_unsuccessful result \<longrightarrow>
        error_message err = js_or (wrapper_result.error result) ''OMR processing failed'')"
  by (auto simp: extractOrderFromOMR_body_def upstream_unsuccessful_def js_or_nonempty
                 cannot_read_nonempty build_error_nonempty
           split: if_splits option.splits engine_value.splits sum.splits)




lemma extract_failure:
  assumes "fst (extractOrderFromOMR this env fs p) = Inr r" and "\<not> order_result.success r"
  shows "\<exists>result err. processImage this env fs p = (Inr result, fs) \<and>
           extractOrderFromOMR_body result = Inl err \<and> r = extractOrderFromOMR_catch err"
proof -
  obtain result where pi: "processImage this env fs p = (Inr result, fs)"
    using processImage_returns by blast
  show ?thesis
  proof (cases "extractOrderFromOMR_body result")
    case (Inl err)
    with pi assms show ?thesis by (auto simp: extract_via_body)
  next
    case (Inr r')
    with pi assms(1) have "r' = r" by (simp add: extract_via_body)
    with Inr body_success[of result r] assms(2) show ?thesis by auto
  qed
qed

lemmas scenario_defs =
  the_processor_def engine_reports_def engine_crashes_def report_of_def failure_report_def
  report_without_marks_def sel_def qty_def

lemmas grouping_defs =
  build_orderItems_def empty_grouping_def group_mark_def ensure_group_def set_group_mark_def
  get_group_def inherited_mark_def builtin_method_names_def no_marks_def read_mark_def
  write_mark_def order_lines_def Object_entries_def array_index_def index_key_def
  order_line_of_def get_mark_def

lemmas run_defs =
  extractOrderFromOMR_def extractOrderFromOMR_body_def extractOrderFromOMR_catch_def
  processImage_def processImage_try_def runPythonCommand_def fs_access_def fs_unlink_def
  js_or_def cannot_read_properties_def grouping_defs

lemma exit_code_1: "string_of_code (Some 1) = ''1''"
  by (simp add: string_of_code_def number_to_string_def decimal_digits.simps digit_char_def)

section \<open>Runs on ordinary item names\<close>

text \<open>
  The properties of this and the following sections that speak of the Marks of an item are
  stated for marks none of whose items is one of \<open>inherited_names\<close>, and, as the model of
  the grouping loop says, for a call that finds \<^verbatim>\<open>Object.prototype\<close> as the language
  defines it. The last Mark of an item and type then decides alone.
\<close>

text \<open>Such marks leave \<^verbatim>\<open>Object.prototype\<close> as they found it.\<close>

lemma ordinary_marks_keep_Object_prototype:
  assumes "MarkNull \<notin> set vs" and "ordinary_items (mark_objects vs)"
  shows "\<exists>st. group_marks empty_grouping vs = Inr st \<and> Object_prototype st = no_marks"
  using group_marks_closed[OF assms] by (simp add: closed_grouping_def)




section \<open>Which items get an order line\<close>




section \<open>The confidence of an order line\<close>




section \<open>The quantity of an order line\<close>



section \<open>When the extractor fails\<close>




section \<open>What a failure returns\<close>

text \<open>
  Claim C5: \<open>extractOrderFromOMR\<close> always returns an object, and when that object has
  \<open>success = false\<close> its \<open>orderItems\<close> is the empty list and its \<open>omrData\<close> is null.
\<close>

theorem C5_failure_carries_no_order_data:
  "\<exists>r. extractOrderFromOMR this env fs imagePath = (Inr r, fs) \<and>
       (\<not> order_result.success r \<longrightarrow> orderItems r = [] \<and> omrData r = None)"
proof -
  obtain r where r: "extractOrderFromOMR this env fs imagePath = (Inr r, fs)"
    using extract_returns by blast
  have "orderItems r = [] \<and> omrData r = None" if "\<not> order_result.success r"
  proof -
    from r have "fst (extractOrderFromOMR this env fs imagePath) = Inr r" by simp
    from extract_failure[OF this that] show ?thesis
      by (auto simp: extractOrderFromOMR_catch_def)
  qed
  with r show ?thesis by blast
qed

text \<open>Claim C5 when the engine exits with code 1.\<close>

theorem C5_failure_carries_no_order_data_witness:
  "\<not> order_result.success
       \<lparr>order_result.success = False,
        error = Some ''Python process exited with code 1: Traceback'',
        orderItems = [], omrData = None\<rparr> \<and>
   extractOrderFromOMR the_processor engine_crashes {''uploads/form.jpg''} ''uploads/form.jpg''
     = (Inr \<lparr>order_result.success = False,
              error = Some ''Python process exited with code 1: Traceback'',
              orderItems = [], omrData = None\<rparr>, {''uploads/form.jpg''})"
proof -
  have run: "extractOrderFromOMR the_processor engine_crashes {''uploads/form.jpg''}
               ''uploads/form.jpg''
     = (Inr \<lparr>order_result.success = False,
              error = Some ''Python process exited with code 1: Traceback'',
              orderItems = [], omrData = None\<rparr>, {''uploads/form.jpg''})"
    by (simp add: run_defs scenario_defs exit_code_1)
  from C5_failure_carries_no_order_data[of the_processor engine_crashes
         "{''uploads/form.jpg''}" "''uploads/form.jpg''"] run
  show ?thesis by simp
qed

section \<open>A missing image file\<close>

text \<open>
  Claim C6: \<open>processImage\<close> returns a result object for every path, never an exception, and
  for a path that does not exist the result has \<open>success = false\<close>, no data and a non-empty
  error string, the message of the ENOENT rejection of \<^verbatim>\<open>fs.access\<close>.
\<close>

theorem C6_missing_file_reported_not_thrown:
  "(\<exists>r. processImage this env fs imagePath = (Inr r, fs)) \<and>
   (imagePath \<notin> fs \<longrightarrow>
      (\<exists>r e. processImage this env fs imagePath = (Inr r, fs) \<and>
             \<not> wrapper_result.success r \<and> wrapper_result.error r = Some e \<and> e \<noteq> [] \<and>
             wrapper_result.data r = None \<and>
             e = ''ENOENT: no such file or directory, access '' @ [CHR 0x27] @ imagePath
                   @ [CHR 0x27]))"
  using processImage_returns[of this env fs imagePath] missing_file[of imagePath fs this env]
  by auto

text \<open>Claim C6 on a path that is not among the uploaded files.\<close>

theorem C6_missing_file_reported_not_thrown_witness:
  "''uploads/missing.jpg'' \<notin> {''uploads/form.jpg''} \<and>
   processImage the_processor engine_crashes {''uploads/form.jpg''} ''uploads/missing.jpg''
     = (Inr \<lparr>wrapper_result.success = False,
              error = Some (''ENOENT: no such file or directory, access '' @ [CHR 0x27]
                             @ ''uploads/missing.jpg'' @ [CHR 0x27]),
              data = None\<rparr>, {''uploads/form.jpg''})"
proof -
  have missing: "''uploads/missing.jpg'' \<notin> {''uploads/form.jpg''}" by simp
  from C6_missing_file_reported_not_thrown[of the_processor engine_crashes
         "{''uploads/form.jpg''}" "''uploads/missing.jpg''"] missing
  obtain r e where
    "processImage the_processor engine_crashes {''uploads/form.jpg''} ''uploads/missing.jpg''
       = (Inr r, {''uploads/form.jpg''})"
    "\<not> wrapper_result.success r" "wrapper_result.error r = Some e" "wrapper_result.data r = None"
    "e = ''ENOENT: no such file or directory, access '' @ [CHR 0x27] @ ''uploads/missing.jpg''
           @ [CHR 0x27]"
    by blast
  then show ?thesis using missing by (cases r) simp
qed

section \<open>The error message of a failure\<close>

text \<open>
  Claim C10: whenever \<open>extractOrderFromOMR\<close> returns \<open>success = false\<close> its \<open>error\<close> is a
  non-empty string. When the upstream failure carries no error message (the wrapper result
  has no \<open>error\<close>, or an empty one) it is the fallback \<^verbatim>\<open>OMR processing failed\<close>; when it
  carries one, it is that message.
\<close>

theorem C10_failure_carries_error_message:
  "\<exists>result r.
     fst (processImage this env fs imagePath) = Inr result \<and>
     fst (extractOrderFromOMR this env fs imagePath) = Inr r \<and>
     (\<not> order_result.success r \<longrightarrow>
        (\<exists>e. order_result.error r = Some e \<and> e \<noteq> []) \<and>
        (upstream_unsuccessful result \<and>
         (wrapper_result.error result = None \<or> wrapper_result.error result = Some [])
         \<longrightarrow> order_result.error r = Some ''OMR processing failed'') \<and>
        (\<forall>e. upstream_unsuccessful result \<and> wrapper_result.error result = Some e \<and> e \<noteq> []
         \<longrightarrow> order_result.error r = Some e))"
proof -
  obtain result where pi: "processImage this env fs imagePath = (Inr result, fs)"
    using processImage_returns by blast
  obtain r where r: "extractOrderFromOMR this env fs imagePath = (Inr r, fs)"
    using extract_returns by blast
  have "(\<exists>e. order_result.error r = Some e \<and> e \<noteq> []) \<and>
        (upstream_unsuccessful result \<and>
         (wrapper_result.error result = None \<or> wrapper_result.error result = Some [])
         \<longrightarrow> order_result.error r = Some ''OMR processing failed'') \<and>
        (\<forall>e. upstream_unsuccessful result \<and> wrapper_result.error result = Some e \<and> e \<noteq> []
         \<longrightarrow> order_result.error r = Some e)"
    if fail: "\<not> order_result.success r"
  proof -
    from r have "fst (extractOrderFromOMR this env fs imagePath) = Inr r" by simp
    from extract_failure[OF this fail] pi obtain err where
      b: "extractOrderFromOMR_body result = Inl err" and c: "r = extractOrderFromOMR_catch err"
      by auto
    from body_failure[OF b] have
      ne: "error_message err \<noteq> []" and
      fb: "upstream_unsuccessful result \<longrightarrow>
             error_message err = js_or (wrapper_result.error result) ''OMR processing failed''"
      by simp_all
    have e: "order_result.error r = Some (error_message err)"
      by (simp add: c extractOrderFromOMR_catch_def)
    show ?thesis using ne fb unfolding e by (auto simp: js_or_def)
  qed
  with pi r show ?thesis by auto
qed

text \<open>Claim C10 when the engine itself reports \<open>success = false\<close>: the wrapper result
  carries no error and the fallback message is substituted.\<close>

theorem C10_failure_carries_error_message_witness:
  "fst (processImage the_processor (engine_reports (Some failure_report))
          {''uploads/form.jpg''} ''uploads/form.jpg'')
     = Inr \<lparr>wrapper_result.success = True, error = None, data = Some failure_report\<rparr> \<and>
   fst (extractOrderFromOMR the_processor (engine_reports (Some failure_report))
          {''uploads/form.jpg''} ''uploads/form.jpg'')
     = Inr \<lparr>order_result.success = False, error = Some ''OMR processing failed'',
            orderItems = [], omrData = None\<rparr> \<and>
   ''OMR processing failed'' \<noteq> []"
proof -
  let ?env = "engine_reports (Some failure_report)"
  let ?result = "\<lparr>wrapper_result.success = True, error = None, data = Some failure_report\<rparr>"
  let ?r = "\<lparr>order_result.success = False, error = Some ''OMR processing failed'',
             orderItems = [], omrData = None\<rparr>"
  have pi: "fst (processImage the_processor ?env {''uploads/form.jpg''} ''uploads/form.jpg'')
              = Inr ?result"
    by (simp add: processImage_def processImage_try_def runPythonCommand_def fs_access_def
          scenario_defs)
  have run: "fst (extractOrderFromOMR the_processor ?env {''uploads/form.jpg''} ''uploads/form.jpg'')
              = Inr ?r"
    by (simp add: run_defs scenario_defs)
  have up: "upstream_unsuccessful ?result"
    by (simp add: upstream_unsuccessful_def failure_report_def)
  from C10_failure_carries_error_message[of the_processor ?env "{''uploads/form.jpg''}"
         "''uploads/form.jpg''"]
  obtain result r where
    a: "fst (processImage the_processor ?env {''uploads/form.jpg''} ''uploads/form.jpg'') = Inr result"
    and b: "fst (extractOrderFromOMR the_processor ?env {''uploads/form.jpg''} ''uploads/form.jpg'') = Inr r"
    and c: "\<not> order_result.success r \<longrightarrow>
        (\<exists>e. order_result.error r = Some e \<and> e \<noteq> []) \<and>
        (upstream_unsuccessful result \<and>
         (wrapper_result.error result = None \<or> wrapper_result.error result = Some [])
         \<longrightarrow> order_result.error r = Some ''OMR processing failed'')"
    by blast
  from a pi have result: "result = ?result" by simp
  from b run have r: "r = ?r" by simp
  from c up have "order_result.error ?r = Some ''OMR processing failed''"
    unfolding result r by simp
  with pi run show ?thesis by simp
qed

section \<open>The uploaded file\<close>

lemma processImage_keeps_files: "snd (processImage this env fs imagePath) = fs"
  using processImage_returns[of this env fs imagePath] by auto

lemma extractOrderFromOMR_keeps_files: "snd (extractOrderFromOMR this env fs imagePath) = fs"
  using extract_returns[of this env fs imagePath] by auto

lemma fs_unlink_removes: "snd (fs_unlink fs p) = fs - {p}"
  by (auto simp: fs_unlink_def)

lemma route_cleans_up_after_wrapper_failure:
  assumes "req_file req = Some imagePath"
    and "\<not> pythonProcessorReady \<or>
         (\<exists>r. fst (processImage this env fs imagePath) = Inr r \<and> \<not> wrapper_result.success r)"
  shows "\<exists>res. omr_process_route this env pythonProcessorReady req fs = (res, fs - {imagePath}) \<and>
           \<not> response.success res \<and> status res = 500"
proof -
  have "\<exists>err. omr_process_try this env pythonProcessorReady fs imagePath = (Inl err, fs)"
  proof (cases pythonProcessorReady)
    case False
    then show ?thesis by (simp add: omr_process_try_def)
  next
    case True
    with assms(2) obtain r where r: "fst (processImage this env fs imagePath) = Inr r"
      "\<not> wrapper_result.success r" by blast
    obtain r' where "processImage this env fs imagePath = (Inr r', fs)"
      using processImage_returns by blast
    with r True show ?thesis by (simp add: omr_process_try_def)
  qed
  then obtain err where
    t: "omr_process_try this env pythonProcessorReady fs imagePath = (Inl err, fs)" by blast
  obtain u fs2 where u: "fs_unlink fs imagePath = (u, fs2)" by (cases "fs_unlink fs imagePath")
  with fs_unlink_removes[of fs imagePath] have "fs2 = fs - {imagePath}" by simp
  with assms(1) t u show ?thesis by (simp add: omr_process_route_def)
qed

text \<open>
  Claim C8 fails when the engine itself reports the failure. The engine exits with code 0
  and prints \<^verbatim>\<open>{"success": false, "error": "Could not load image"}\<close>; \<open>processImage\<close> wraps
  the report in a result with \<open>success = true\<close>, and the route looks at the wrapper's flag
  only: it answers with status 200 and \<open>success = true\<close>, every copied field undefined, and
  leaves the uploaded file in place. On the same input \<open>extractOrderFromOMR\<close>, which also
  tests the \<^verbatim>\<open>success\<close> of the report, returns \<open>success = false\<close>.
\<close>

theorem C8_route_accepts_reported_failure:
  "fst (processImage the_processor (engine_reports (Some failure_report))
          {''uploads/form.jpg'', ''uploads/other.jpg''} ''uploads/form.jpg'')
     = Inr \<lparr>wrapper_result.success = True, error = None, data = Some failure_report\<rparr> \<and>
   failure_report =
     Report \<lparr>processing_result.success = False, marks = MarksUndefined, confidence = None,
             image_dimensions = None, total_marks_detected = None, marked_items = None,
             error = Some ''Could not load image''\<rparr> \<and>
   omr_process_route the_processor (engine_reports (Some failure_report)) True
       \<lparr>req_file = Some ''uploads/form.jpg'', form_type = Some ''menu_order''\<rparr>
       {''uploads/form.jpg'', ''uploads/other.jpg''}
     = (\<lparr>status = 200, success = True, error = None,
         message = Some ''OMR processing completed successfully using Python OpenCV'',
         data = Some \<lparr>response_data.data_id = 0, form_type = Some ''menu_order'',
                       marks = MarksUndefined, confidence = None,
                       image_path = ''uploads/form.jpg'', processor = ''python-opencv'',
                       image_dimensions = None, total_marks_detected = None,
                       marked_items = None\<rparr>\<rparr>,
        {''uploads/form.jpg'', ''uploads/other.jpg''}) \<and>
   fst (extractOrderFromOMR the_processor (engine_reports (Some failure_report))
          {''uploads/form.jpg'', ''uploads/other.jpg''} ''uploads/form.jpg'')
     = Inr \<lparr>order_result.success = False, error = Some ''OMR processing failed'',
            orderItems = [], omrData = None\<rparr>"
  by (simp add: omr_process_route_def omr_process_try_def omr_process_data_def run_defs
        scenario_defs)

section \<open>Duplicate Marks\<close>










section \<open>The confidence shown by the client\<close>

text \<open>
  Claim C7 at the response the API documentation gives as its example, whose aggregate
  confidence is 85 on the 0 to 100 scale: \<open>showResults\<close> multiplies it by 100 once more and
  prints 8500 percent.
\<close>

theorem C7_showResults_rescales_percentage:
  "process_data.confidence documented_data = 85 \<and>
   showResults_confidencePercent documented_data = 8500 \<and>
   showResults_confidence_text documented_data = ''Confidence: 8500%''"
proof -
  have p: "showResults_confidencePercent documented_data = 8500"
    by (simp add: showResults_confidencePercent_def documented_data_def)
  have t: "number_to_string 8500 = ''8500''"
    by (simp add: number_to_string_def decimal_digits.simps digit_char_def)
  show ?thesis
    by (simp add: p t showResults_confidence_text_def) (simp add: documented_data_def)
qed

end
